theory Spec2Isabelle
  imports Main "HOL-Library.Multiset"
begin

section \<open>Data model of the profile page\<close>

text \<open>
  The interfaces \<^verbatim>\<open>User\<close> and \<^verbatim>\<open>Post\<close> of the Profile component. All fields are
  JavaScript strings. The field \<^verbatim>\<open>id\<close> of each interface is written \<open>uid\<close> and \<open>pid\<close>
  (\<open>id\<close> is the identity function of HOL), the field \<^verbatim>\<open>text\<close> is written \<open>text'\<close>
  (\<open>text\<close> is a keyword).
\<close>

record User =
  uid :: string
  firstName :: string
  lastName :: string
  email :: string
  password :: string

record Post =
  pid :: string
  userId :: string
  postedAt :: string
  title :: string
  text' :: string

text \<open>The draft buffer \<^verbatim>\<open>newPost\<close>, a \<^verbatim>\<open>{ title, text }\<close> object.\<close>

record NewPost =
  np_title :: string
  np_text :: string

text \<open>
  The object \<^verbatim>\<open>newPostData\<close> sent as the body of the create request. Its \<^verbatim>\<open>userId\<close> is
  \<^verbatim>\<open>user?.id\<close>, which is \<^verbatim>\<open>undefined\<close> (here \<open>None\<close>) when no user is set.
\<close>

record NewPostData =
  npd_userId :: "string option"
  npd_title :: string
  npd_text :: string
  npd_postedAt :: string

text \<open>The seven \<^verbatim>\<open>useState\<close> cells of the component.\<close>

record State =
  user :: "User option"
  posts :: "Post list"
  showModal :: bool
  newPost :: NewPost
  isLoading :: bool
  error :: "string option"
  success :: "string option"

definition initialState :: State where
  "initialState =
     \<lparr>user = None, posts = [], showModal = False,
      newPost = \<lparr>np_title = [], np_text = []\<rparr>,
      isLoading = False, error = None, success = None\<rparr>"

section \<open>Effects\<close>

text \<open>
  The three requests the component sends to \<^verbatim>\<open>http://localhost:5001/posts\<close>, and what
  an awaited \<^verbatim>\<open>fetch\<close> can give back: the promise rejects (\<open>Rejected\<close>), or it resolves
  to a response with its \<^verbatim>\<open>ok\<close> flag and the value of \<^verbatim>\<open>response.json()\<close> (\<open>None\<close> when
  that promise rejects or the value has not the shape the handler goes on to use).
\<close>

datatype request = GET_posts | POST_posts NewPostData | DELETE_posts string

datatype 'a response = Rejected | Response bool "'a option"

text \<open>
  Every effect of a handler is recorded, in program order, in a log next to the state:
  the requests sent, the calls of \<^verbatim>\<open>console.error\<close> and the calls of the state setters
  (for a functional update, with the value it produced).
\<close>

datatype event =
    Fetch request
  | ConsoleError string
  | SetPosts "Post list"
  | SetError "string option"
  | SetSuccess "string option"
  | SetIsLoading bool
  | SetNewPost NewPost
  | SetShowModal bool

type_synonym run = "State \<times> event list"

definition fetch :: "request \<Rightarrow> run \<Rightarrow> run" where
  "fetch q r = (fst r, snd r @ [Fetch q])"

definition consoleError :: "string \<Rightarrow> run \<Rightarrow> run" where
  "consoleError m r = (fst r, snd r @ [ConsoleError m])"

definition setPosts :: "Post list \<Rightarrow> run \<Rightarrow> run" where
  "setPosts ps r = ((fst r)\<lparr>posts := ps\<rparr>, snd r @ [SetPosts ps])"

definition setError :: "string option \<Rightarrow> run \<Rightarrow> run" where
  "setError e r = ((fst r)\<lparr>error := e\<rparr>, snd r @ [SetError e])"

definition setSuccess :: "string option \<Rightarrow> run \<Rightarrow> run" where
  "setSuccess m r = ((fst r)\<lparr>success := m\<rparr>, snd r @ [SetSuccess m])"

definition setIsLoading :: "bool \<Rightarrow> run \<Rightarrow> run" where
  "setIsLoading b r = ((fst r)\<lparr>isLoading := b\<rparr>, snd r @ [SetIsLoading b])"

definition setNewPost :: "NewPost \<Rightarrow> run \<Rightarrow> run" where
  "setNewPost d r = ((fst r)\<lparr>newPost := d\<rparr>, snd r @ [SetNewPost d])"

definition setShowModal :: "bool \<Rightarrow> run \<Rightarrow> run" where
  "setShowModal b r = ((fst r)\<lparr>showModal := b\<rparr>, snd r @ [SetShowModal b])"

section \<open>Ordering of posts\<close>

text \<open>
  Two things that \<^verbatim>\<open>getPosts\<close> uses are the JavaScript engine's and not the
  component's; they are parameters of the model.
  \<^item> \<open>getTime\<close> stands for \<^verbatim>\<open>s => new Date(s).getTime()\<close>: the time value of the date
    in milliseconds, or \<open>None\<close> for \<^verbatim>\<open>NaN\<close> when the string is no date.
  \<^item> \<open>sortOrder\<close> is the order in which the engine's \<^verbatim>\<open>sort\<close> leaves an array whose
    comparator is not consistent. ECMAScript calls that order implementation-defined;
    engines differ, and one engine orders arrays of different lengths by different
    algorithms. \<open>sortOrder comparefn xs i\<close> is the rank the engine gives to the element
    at index \<open>i\<close> of \<open>xs\<close>.
\<close>

record Engine =
  getTime :: "string \<Rightarrow> int option"
  sortOrder :: "(Post \<Rightarrow> Post \<Rightarrow> int option) \<Rightarrow> Post list \<Rightarrow> nat \<Rightarrow> nat"

text \<open>
  The comparator handed to \<^verbatim>\<open>sort\<close>:
  \<^verbatim>\<open>(a, b) => new Date(b.postedAt).getTime() - new Date(a.postedAt).getTime()\<close>.
  A difference with a \<^verbatim>\<open>NaN\<close> operand is \<^verbatim>\<open>NaN\<close>. Time values are integers below
  \<open>2^53\<close> in magnitude, so the sign of the floating-point difference is the sign of the
  integer difference, and only the sign is used.
\<close>

definition compareFn :: "(string \<Rightarrow> int option) \<Rightarrow> Post \<Rightarrow> Post \<Rightarrow> int option" where
  "compareFn tv a b =
     (case tv (postedAt b) of
        None \<Rightarrow> None
      | Some tb \<Rightarrow> (case tv (postedAt a) of None \<Rightarrow> None | Some ta \<Rightarrow> Some (tb - ta)))"

text \<open>
  \<^verbatim>\<open>Array.prototype.sort\<close> with a comparator. The sort reads the result of the comparator
  as a number, and \<^verbatim>\<open>NaN\<close> counts as \<open>0\<close> (\<open>SortCompare\<close>). A comparator is consistent
  for the elements of an array when it never gives \<^verbatim>\<open>NaN\<close> on them and its three
  outcomes (below, equal to and above \<open>0\<close>) behave as an order: equality is reflexive,
  symmetric and transitive, and so are "before" and "after" transitive.
\<close>

definition SortCompare :: "('a \<Rightarrow> 'a \<Rightarrow> int option) \<Rightarrow> 'a \<Rightarrow> 'a \<Rightarrow> int" where
  "SortCompare comparefn x y = (case comparefn x y of None \<Rightarrow> 0 | Some v \<Rightarrow> v)"

definition consistent :: "('a \<Rightarrow> 'a \<Rightarrow> int option) \<Rightarrow> 'a list \<Rightarrow> bool" where
  "consistent comparefn xs =
     (\<forall>a\<in>set xs. \<forall>b\<in>set xs. \<forall>c\<in>set xs.
        comparefn a b \<noteq> None
      \<and> SortCompare comparefn a a = 0
      \<and> (SortCompare comparefn a b = 0 \<longrightarrow> SortCompare comparefn b a = 0)
      \<and> (SortCompare comparefn a b = 0 \<and> SortCompare comparefn b c = 0
           \<longrightarrow> SortCompare comparefn a c = 0)
      \<and> (SortCompare comparefn a b < 0 \<and> SortCompare comparefn b c < 0
           \<longrightarrow> SortCompare comparefn a c < 0)
      \<and> (SortCompare comparefn a b > 0 \<and> SortCompare comparefn b c > 0
           \<longrightarrow> SortCompare comparefn a c > 0))"

text \<open>
  With a consistent comparator the result is fixed by the language: the elements in the
  order of the comparator, elements that compare equal in their input order (the sort is
  stable). The stable insertion sort computes it: an element goes before the first
  element of the sorted rest that it does not have to follow.
\<close>

fun insert_sorted :: "('a \<Rightarrow> 'a \<Rightarrow> int option) \<Rightarrow> 'a \<Rightarrow> 'a list \<Rightarrow> 'a list" where
  "insert_sorted comparefn x [] = [x]"
| "insert_sorted comparefn x (y # ys) =
     (if SortCompare comparefn x y \<le> 0 then x # y # ys
      else y # insert_sorted comparefn x ys)"

text \<open>
  Otherwise the result is the same elements in the order of the engine: by the rank of
  their index, elements of one rank in their input order.
\<close>

definition engine_order :: "(nat \<Rightarrow> nat) \<Rightarrow> 'a list \<Rightarrow> 'a list" where
  "engine_order rank xs = map snd (sort_key (\<lambda>ix. rank (fst ix)) (enumerate 0 xs))"

definition array_sort ::
  "(('a \<Rightarrow> 'a \<Rightarrow> int option) \<Rightarrow> 'a list \<Rightarrow> nat \<Rightarrow> nat) \<Rightarrow> ('a \<Rightarrow> 'a \<Rightarrow> int option) \<Rightarrow> 'a list \<Rightarrow> 'a list" where
  "array_sort order comparefn xs =
     (if consistent comparefn xs then foldr (insert_sorted comparefn) xs []
      else engine_order (order comparefn xs) xs)"

text \<open>The value \<^verbatim>\<open>userPosts\<close> of \<^verbatim>\<open>getPosts\<close>: the user's posts, sorted.\<close>

definition userPosts :: "Engine \<Rightarrow> User \<Rightarrow> Post list \<Rightarrow> Post list" where
  "userPosts js u data =
     array_sort (sortOrder js) (compareFn (getTime js)) (filter (\<lambda>post. userId post = uid u) data)"

section \<open>The handlers\<close>

text \<open>
  A handler is a function from the run so far to the run after it has completed. The
  responses to the requests it awaits are arguments. The state variables a handler reads
  (\<^verbatim>\<open>user\<close>, \<^verbatim>\<open>posts\<close>, \<^verbatim>\<open>newPost\<close>) are those of the render that created it, here the
  state \<open>s0\<close> at the call; a functional update reads the state at the update. A
  \<^verbatim>\<open>throw\<close> inside a \<^verbatim>\<open>try\<close> block, a rejected \<^verbatim>\<open>fetch\<close> and a rejected \<^verbatim>\<open>json()\<close> all
  continue in the \<^verbatim>\<open>catch\<close> block, which logs the error under a fixed label.

  \<^verbatim>\<open>getPosts(user)\<close> is called by the effect that runs when the page is mounted, with the
  user read from local storage, and by the \<^verbatim>\<open>finally\<close> blocks of the two mutating
  handlers, with the \<^verbatim>\<open>user\<close> of the state if there is one. The page renders the form
  and the delete buttons only when \<^verbatim>\<open>user\<close> is set.
\<close>

definition getPosts_catch :: "run \<Rightarrow> run" where
  "getPosts_catch r =
     (let r1 = consoleError ''Error fetching posts:'' r
      in setError (Some ''Failed to load posts.'') r1)"

definition getPosts :: "Engine \<Rightarrow> User \<Rightarrow> Post list response \<Rightarrow> run \<Rightarrow> run" where
  "getPosts js u listResp r =
     (let r1 = fetch GET_posts r
      in case listResp of
           Rejected \<Rightarrow> getPosts_catch r1
         | Response ok body \<Rightarrow>
             if \<not> ok then getPosts_catch r1
             else (case body of
                     None \<Rightarrow> getPosts_catch r1
                   | Some data \<Rightarrow> setPosts (userPosts js u data) r1))"

text \<open>The \<^verbatim>\<open>finally\<close> blocks of the two mutating handlers start with the same re-list.\<close>

definition relist :: "Engine \<Rightarrow> User option \<Rightarrow> Post list response \<Rightarrow> run \<Rightarrow> run" where
  "relist js usr listResp r =
     (case usr of None \<Rightarrow> r | Some u \<Rightarrow> getPosts js u listResp r)"

definition handlePostSubmit ::
  "Engine \<Rightarrow> string \<Rightarrow> Post response \<Rightarrow> Post list response \<Rightarrow> run \<Rightarrow> run" where
  "handlePostSubmit js now createResp listResp r =
     (let s0 = fst r in
      if np_title (newPost s0) = [] \<or> np_text (newPost s0) = [] then
        setError (Some ''Both title and content are required.'') r
      else
        let r1 = setIsLoading True r;
            newPostData =
              \<lparr>npd_userId = map_option uid (user s0), npd_title = np_title (newPost s0),
               npd_text = np_text (newPost s0), npd_postedAt = now\<rparr>;
            r2 = fetch (POST_posts newPostData) r1;
            r3 = (case createResp of
                    Rejected \<Rightarrow> consoleError ''Error adding post:'' r2
                  | Response ok body \<Rightarrow>
                      if \<not> ok then consoleError ''Error adding post:'' r2
                      else (case body of
                              None \<Rightarrow> consoleError ''Error adding post:'' r2
                            | Some addedPost \<Rightarrow>
                                let r2a = setPosts (addedPost # posts s0) r2;
                                    r2b = setSuccess (Some ''Your post has been successfully added!'') r2a
                                in setError None r2b));
            r4 = relist js (user s0) listResp r3;
            r5 = setError None r4;
            r6 = setNewPost \<lparr>np_title = [], np_text = []\<rparr> r5;
            r7 = setIsLoading False r6
        in setShowModal False r7)"

definition handleDeletePost ::
  "Engine \<Rightarrow> string \<Rightarrow> unit response \<Rightarrow> Post list response \<Rightarrow> run \<Rightarrow> run" where
  "handleDeletePost js postId deleteResp listResp r =
     (let s0 = fst r;
          r1 = setIsLoading True r;
          r2 = fetch (DELETE_posts postId) r1;
          r3 = (case deleteResp of
                  Rejected \<Rightarrow> consoleError ''Error deleting post:'' r2
                | Response ok body \<Rightarrow>
                    if \<not> ok then consoleError ''Error deleting post:'' r2
                    else
                      let r2a = setPosts (filter (\<lambda>post. pid post \<noteq> postId) (posts (fst r2))) r2;
                          r2b = setSuccess (Some ''Your post has been successfully deleted!'') r2a
                      in setError None r2b);
          r4 = relist js (user s0) listResp r3
      in setIsLoading False r4)"

text \<open>The two handlers of the form: typing into a field, and opening or closing the dialog.\<close>

definition handleInputChange :: "string \<Rightarrow> string \<Rightarrow> run \<Rightarrow> run" where
  "handleInputChange name val r =
     (let s0 = fst r in
      if name = ''title'' then setNewPost ((newPost s0)\<lparr>np_title := val\<rparr>) r
      else if name = ''text'' then setNewPost ((newPost s0)\<lparr>np_text := val\<rparr>) r
      else setNewPost (newPost s0) r)"

definition handleModalToggle :: "run \<Rightarrow> run" where
  "handleModalToggle r = setShowModal (\<not> showModal (fst r)) r"

section \<open>Sequences of operations\<close>

text \<open>
  One invocation of a handler, with the responses it receives, and the run of a sequence
  of invocations, each completing before the next starts.
\<close>

datatype command =
    GetPosts User "Post list response"
  | InputChange string string
  | ModalToggle
  | PostSubmit string "Post response" "Post list response"
  | DeletePost string "unit response" "Post list response"

fun step :: "Engine \<Rightarrow> command \<Rightarrow> run \<Rightarrow> run" where
  "step js (GetPosts u listResp) r = getPosts js u listResp r"
| "step js (InputChange name val) r = handleInputChange name val r"
| "step js ModalToggle r = handleModalToggle r"
| "step js (PostSubmit now createResp listResp) r =
     handlePostSubmit js now createResp listResp r"
| "step js (DeletePost postId deleteResp listResp) r =
     handleDeletePost js postId deleteResp listResp r"

fun exec :: "Engine \<Rightarrow> command list \<Rightarrow> run \<Rightarrow> run" where
  "exec js [] r = r"
| "exec js (c # cs) r = exec js cs (step js c r)"

section \<open>Notions used to state the properties\<close>

text \<open>
  What a \<^verbatim>\<open>try\<close> block obtains from a response: \<open>delivered\<close> is the parsed body of a
  response that is \<^verbatim>\<open>ok\<close> (the list and create requests succeed when there is one),
  \<open>accepted\<close> says that the response is \<^verbatim>\<open>ok\<close> (the delete request, whose body is not
  read, succeeds then).
\<close>

fun delivered :: "'a response \<Rightarrow> 'a option" where
  "delivered Rejected = None"
| "delivered (Response ok body) = (if ok then body else None)"

fun accepted :: "'a response \<Rightarrow> bool" where
  "accepted Rejected = False"
| "accepted (Response ok body) = ok"

text \<open>The time value of a post whose \<^verbatim>\<open>postedAt\<close> is a date.\<close>

definition timeOf :: "(string \<Rightarrow> int option) \<Rightarrow> Post \<Rightarrow> int" where
  "timeOf tv p = the (tv (postedAt p))"

text \<open>
  \<^verbatim>\<open>String.prototype.trim\<close> on ASCII strings. No handler calls it; it is here to state
  what "empty after trimming whitespace" means.
\<close>

definition isWhiteSpace :: "char \<Rightarrow> bool" where
  "isWhiteSpace c = (c \<in> set [CHR 0x09, CHR 0x0A, CHR 0x0B, CHR 0x0C, CHR 0x0D, CHR 0x20])"

definition trim :: "string \<Rightarrow> string" where
  "trim s = rev (dropWhile isWhiteSpace (rev (dropWhile isWhiteSpace s)))"

section \<open>Sample data\<close>

text \<open>
  An engine that knows the time values of five date strings
  (\<^verbatim>\<open>new Date("2024-01-01").getTime()\<close> is \<open>1704067200000\<close>; the strings that end in
  \<^verbatim>\<open>Z\<close> have the form that \<^verbatim>\<open>toISOString\<close> gives) and that leaves an array as it is
  where the order is its own choice. Two users and seven posts: \<open>post5\<close> is of the same
  instant as \<open>post1\<close>, written differently, and the \<^verbatim>\<open>postedAt\<close> of \<open>post6\<close> is no date.
\<close>

definition sampleJs :: Engine where
  "sampleJs =
     \<lparr>getTime =
        map_of [(''2024-01-01'', 1704067200000), (''2024-01-02'', 1704153600000),
                (''2024-01-05'', 1704412800000),
                (''2024-01-01T00:00:00.000Z'', 1704067200000),
                (''2024-01-03T00:00:00.000Z'', 1704240000000)],
      sortOrder = (\<lambda>comparefn xs i. i)\<rparr>"

definition user1 :: User where
  "user1 = \<lparr>uid = ''u1'', firstName = ''Ada'', lastName = ''Byron'',
            email = ''ada@example.org'', password = ''pw1''\<rparr>"

definition user2 :: User where
  "user2 = \<lparr>uid = ''u2'', firstName = ''Alan'', lastName = ''Kay'',
            email = ''alan@example.org'', password = ''pw2''\<rparr>"

definition post1 :: Post where
  "post1 = \<lparr>pid = ''p1'', userId = ''u1'', postedAt = ''2024-01-01'',
            title = ''First'', text' = ''hello''\<rparr>"

definition post2 :: Post where
  "post2 = \<lparr>pid = ''p2'', userId = ''u2'', postedAt = ''2024-01-02'',
            title = ''Other'', text' = ''not mine''\<rparr>"

definition post3 :: Post where
  "post3 = \<lparr>pid = ''p3'', userId = ''u1'', postedAt = ''2024-01-03T00:00:00.000Z'',
            title = ''Second'', text' = ''again''\<rparr>"

definition post4 :: Post where
  "post4 = \<lparr>pid = ''p4'', userId = ''u1'', postedAt = ''2024-01-01'',
            title = ''Third'', text' = ''same day as the first''\<rparr>"

definition post5 :: Post where
  "post5 = \<lparr>pid = ''p5'', userId = ''u1'', postedAt = ''2024-01-01T00:00:00.000Z'',
            title = ''Fourth'', text' = ''same instant as the first''\<rparr>"

definition post6 :: Post where
  "post6 = \<lparr>pid = ''p6'', userId = ''u1'', postedAt = ''not a date'',
            title = ''Fifth'', text' = ''undated''\<rparr>"

definition post7 :: Post where
  "post7 = \<lparr>pid = ''p7'', userId = ''u1'', postedAt = ''2024-01-05'',
            title = ''Sixth'', text' = ''newest''\<rparr>"

text \<open>The state of a profile page of \<open>user1\<close> that shows \<open>post1\<close>, with a filled-in draft.\<close>

definition sampleState :: State where
  "sampleState =
     initialState\<lparr>user := Some user1, posts := [post1],
                  newPost := \<lparr>np_title = ''Second'', np_text = ''again''\<rparr>\<rparr>"

section \<open>Facts about the ordering\<close>

lemmas effect_defs = fetch_def consoleError_def setPosts_def setError_def setSuccess_def
  setIsLoading_def setNewPost_def setShowModal_def

lemmas sample_defs = sampleJs_def sampleState_def initialState_def user1_def user2_def
  post1_def post2_def post3_def post4_def post5_def post6_def post7_def

text \<open>Whatever the comparator and the engine, sorting rearranges.\<close>

lemma mset_insert_sorted: "mset (insert_sorted c x ys) = add_mset x (mset ys)"
  by (induction ys) auto

lemma mset_foldr_insert_sorted: "mset (foldr (insert_sorted c) xs []) = mset xs"
  by (induction xs) (simp_all add: mset_insert_sorted)

lemma mset_engine_order: "mset (engine_order rank xs) = mset xs"
proof -
  have "mset (map snd (sort_key f ys)) = mset (map snd ys)" for f :: "nat \<times> 'a \<Rightarrow> nat" and ys
    by simp
  then have "mset (engine_order rank xs) = mset (map snd (enumerate 0 xs))"
    unfolding engine_order_def .
  then show ?thesis
    by (simp only: map_snd_enumerate)
qed

lemma mset_array_sort: "mset (array_sort order c xs) = mset xs"
  by (simp add: array_sort_def mset_foldr_insert_sorted mset_engine_order)

lemma set_array_sort: "set (array_sort order c xs) = set xs"
  using mset_array_sort [of order c xs] by (metis set_mset_mset)

lemma set_userPosts: "set (userPosts js u data) = {p \<in> set data. userId p = uid u}"
  by (simp add: userPosts_def set_array_sort)

lemma userPosts_owner: "p \<in> set (userPosts js u data) \<Longrightarrow> userId p = uid u"
  by (simp add: set_userPosts)

text \<open>
  On posts whose \<^verbatim>\<open>postedAt\<close> are dates the comparator is the difference of the time
  values; it is consistent on exactly those lists of posts; and the sort is then the
  library's stable sort on the negated time value.
\<close>

lemma SortCompare_compareFn:
  assumes "tv (postedAt x) \<noteq> None" and "tv (postedAt y) \<noteq> None"
  shows "SortCompare (compareFn tv) x y = timeOf tv y - timeOf tv x"
  using assms by (auto simp: SortCompare_def compareFn_def timeOf_def)

lemma compareFn_None:
  "compareFn tv a b = None \<longleftrightarrow> tv (postedAt a) = None \<or> tv (postedAt b) = None"
  by (auto simp: compareFn_def split: option.split)

lemma consistent_compareFn:
  "consistent (compareFn tv) ps \<longleftrightarrow> (\<forall>p\<in>set ps. tv (postedAt p) \<noteq> None)"
proof
  assume c: "consistent (compareFn tv) ps"
  show "\<forall>p\<in>set ps. tv (postedAt p) \<noteq> None"
  proof
    fix p assume "p \<in> set ps"
    with c have "compareFn tv p p \<noteq> None"
      unfolding consistent_def by blast
    then show "tv (postedAt p) \<noteq> None"
      by (simp add: compareFn_None)
  qed
next
  assume d: "\<forall>p\<in>set ps. tv (postedAt p) \<noteq> None"
  show "consistent (compareFn tv) ps"
    unfolding consistent_def
  proof (intro ballI)
    fix a b c assume "a \<in> set ps" "b \<in> set ps" "c \<in> set ps"
    with d have "tv (postedAt a) \<noteq> None" "tv (postedAt b) \<noteq> None"
      "tv (postedAt c) \<noteq> None"
      by auto
    then show "compareFn tv a b \<noteq> None
      \<and> SortCompare (compareFn tv) a a = 0
      \<and> (SortCompare (compareFn tv) a b = 0 \<longrightarrow> SortCompare (compareFn tv) b a = 0)
      \<and> (SortCompare (compareFn tv) a b = 0 \<and> SortCompare (compareFn tv) b c = 0
           \<longrightarrow> SortCompare (compareFn tv) a c = 0)
      \<and> (SortCompare (compareFn tv) a b < 0 \<and> SortCompare (compareFn tv) b c < 0
           \<longrightarrow> SortCompare (compareFn tv) a c < 0)
      \<and> (SortCompare (compareFn tv) a b > 0 \<and> SortCompare (compareFn tv) b c > 0
           \<longrightarrow> SortCompare (compareFn tv) a c > 0)"
      by (simp add: SortCompare_compareFn compareFn_None)
  qed
qed

lemma insert_sorted_insort_key:
  assumes "tv (postedAt x) \<noteq> None" and "\<forall>y\<in>set ys. tv (postedAt y) \<noteq> None"
  shows "insert_sorted (compareFn tv) x ys = insort_key (\<lambda>p. - timeOf tv p) x ys"
  using assms by (induction ys) (simp_all add: SortCompare_compareFn)

lemma foldr_insert_sorted_sort_key:
  assumes "\<forall>p\<in>set ps. tv (postedAt p) \<noteq> None"
  shows "foldr (insert_sorted (compareFn tv)) ps [] = sort_key (\<lambda>p. - timeOf tv p) ps"
  using assms
proof (induction ps)
  case Nil
  show ?case by simp
next
  case (Cons p ps)
  then have "foldr (insert_sorted (compareFn tv)) ps []
      = sort_key (\<lambda>p. - timeOf tv p) ps"
    by simp
  moreover have "\<forall>y\<in>set (sort_key (\<lambda>p. - timeOf tv p) ps). tv (postedAt y) \<noteq> None"
    using Cons.prems by simp
  ultimately show ?case
    using Cons.prems by (simp add: insert_sorted_insort_key)
qed

lemma array_sort_sort_key:
  assumes "\<forall>p\<in>set ps. tv (postedAt p) \<noteq> None"
  shows "array_sort order (compareFn tv) ps = sort_key (\<lambda>p. - timeOf tv p) ps"
  using assms by (simp add: array_sort_def consistent_compareFn foldr_insert_sorted_sort_key)

text \<open>
  The choice of the sorting algorithm does not matter on such posts: a list with the same
  posts, newest first, that keeps the input order among posts of one time value, is the
  result of \<open>array_sort\<close>.
\<close>

lemma array_sort_unique:
  assumes dates: "\<forall>p\<in>set ps. tv (postedAt p) \<noteq> None"
    and perm: "mset qs = mset ps"
    and desc: "sorted_wrt (\<lambda>a b. timeOf tv b \<le> timeOf tv a) qs"
    and stable: "\<forall>t. filter (\<lambda>p. timeOf tv p = t) qs = filter (\<lambda>p. timeOf tv p = t) ps"
  shows "array_sort order (compareFn tv) ps = qs"
proof -
  let ?k = "\<lambda>p. - timeOf tv p"
  have "sorted (map ?k qs)"
    using desc by (simp add: sorted_map)
  moreover have "filter (\<lambda>x. ?k q = ?k x) qs = filter (\<lambda>x. ?k q = ?k x) ps" for q
  proof -
    have "(\<lambda>x. ?k q = ?k x) = (\<lambda>p. timeOf tv p = timeOf tv q)"
      by auto
    then show ?thesis using stable by simp
  qed
  ultimately have "sort_key ?k ps = qs"
    using perm by (intro properties_for_sort_key) simp_all
  then show ?thesis
    using dates by (simp add: array_sort_sort_key)
qed

text \<open>What the sort does to posts that all have dates.\<close>

lemma array_sort_descending_stable:
  assumes "\<forall>p\<in>set ps. tv (postedAt p) \<noteq> None"
  shows "mset (array_sort order (compareFn tv) ps) = mset ps
       \<and> sorted_wrt (\<lambda>a b. timeOf tv a \<ge> timeOf tv b)
           (array_sort order (compareFn tv) ps)
       \<and> (distinct (map (timeOf tv) ps) \<longrightarrow>
            sorted_wrt (\<lambda>a b. timeOf tv a > timeOf tv b)
              (array_sort order (compareFn tv) ps))
       \<and> (\<forall>t. filter (\<lambda>p. timeOf tv p = t) (array_sort order (compareFn tv) ps)
              = filter (\<lambda>p. timeOf tv p = t) ps)
       \<and> (\<forall>d. filter (\<lambda>p. postedAt p = d) (array_sort order (compareFn tv) ps)
              = filter (\<lambda>p. postedAt p = d) ps)"
proof -
  let ?k = "\<lambda>p. - timeOf tv p"
  let ?r = "array_sort order (compareFn tv) ps"
  have r: "?r = sort_key ?k ps"
    using assms by (rule array_sort_sort_key)
  have perm: "mset ?r = mset ps"
    by (simp add: r)
  have "sorted (map ?k ?r)"
    by (simp add: r)
  then have desc: "sorted_wrt (\<lambda>a b. timeOf tv a \<ge> timeOf tv b) ?r"
    by (simp add: sorted_map)
  have strict: "sorted_wrt (\<lambda>a b. timeOf tv a > timeOf tv b) ?r"
    if d: "distinct (map (timeOf tv) ps)"
  proof -
    have "mset (map (timeOf tv) ?r) = mset (map (timeOf tv) ps)"
      using perm by (metis mset_map)
    then have "distinct (map (timeOf tv) ?r)"
      using d by (metis mset_eq_imp_distinct_iff)
    then have "distinct (map ?k ?r)"
      by (simp add: distinct_map inj_on_def)
    with \<open>sorted (map ?k ?r)\<close> have "sorted_wrt (<) (map ?k ?r)"
      by (simp add: strict_sorted_iff)
    then show ?thesis
      by (simp add: sorted_wrt_map)
  qed
  have stable: "filter (\<lambda>p. timeOf tv p = t) ?r = filter (\<lambda>p. timeOf tv p = t) ps" for t
  proof -
    have "filter (\<lambda>p. ?k p = - t) (sort_key ?k ps) = filter (\<lambda>p. ?k p = - t) ps"
      by (rule sort_key_stable)
    then show ?thesis by (simp add: r)
  qed
  have same: "filter (\<lambda>p. postedAt p = d) ?r = filter (\<lambda>p. postedAt p = d) ps" for d
  proof -
    have sub: "filter (\<lambda>p. postedAt p = d) xs
        = filter (\<lambda>p. postedAt p = d) (filter (\<lambda>p. timeOf tv p = the (tv d)) xs)"
      for xs :: "Post list"
      by (induction xs) (auto simp: timeOf_def)
    show ?thesis
      using sub [of ?r] sub [of ps] stable [of "the (tv d)"] by simp
  qed
  show ?thesis using perm desc strict stable same by blast
qed

text \<open>Sample lists are sorted by evaluation.\<close>

lemmas sort_eval = array_sort_def consistent_compareFn engine_order_def

section \<open>The run of each handler\<close>

lemma getPosts_run:
  "getPosts js u listResp (s, l) =
     (case delivered listResp of
        None \<Rightarrow> (s\<lparr>error := Some ''Failed to load posts.''\<rparr>,
                 l @ [Fetch GET_posts, ConsoleError ''Error fetching posts:'',
                      SetError (Some ''Failed to load posts.'')])
      | Some data \<Rightarrow> (s\<lparr>posts := userPosts js u data\<rparr>,
                      l @ [Fetch GET_posts, SetPosts (userPosts js u data)]))"
  by (cases listResp) (simp_all add: getPosts_def getPosts_catch_def effect_defs split: option.split)

lemma relist_run:
  "relist js usr listResp (s, l) =
     (case usr of None \<Rightarrow> (s, l) | Some u \<Rightarrow> getPosts js u listResp (s, l))"
  by (simp add: relist_def)

lemma handlePostSubmit_invalid:
  assumes "np_title (newPost s) = [] \<or> np_text (newPost s) = []"
  shows "handlePostSubmit js now createResp listResp (s, l) =
           (s\<lparr>error := Some ''Both title and content are required.''\<rparr>,
            l @ [SetError (Some ''Both title and content are required.'')])"
  using assms by (auto simp: handlePostSubmit_def setError_def)

lemma handlePostSubmit_run:
  assumes "np_title (newPost s) \<noteq> []" and "np_text (newPost s) \<noteq> []"
  shows "handlePostSubmit js now createResp listResp (s, l) =
     (let d = \<lparr>npd_userId = map_option uid (user s), npd_title = np_title (newPost s),
               npd_text = np_text (newPost s), npd_postedAt = now\<rparr>;
          r3 = (case delivered createResp of
                  None \<Rightarrow> (s\<lparr>isLoading := True\<rparr>,
                           l @ [SetIsLoading True, Fetch (POST_posts d),
                                ConsoleError ''Error adding post:''])
                | Some p \<Rightarrow> (s\<lparr>isLoading := True, posts := p # posts s,
                               success := Some ''Your post has been successfully added!'',
                               error := None\<rparr>,
                             l @ [SetIsLoading True, Fetch (POST_posts d), SetPosts (p # posts s),
                                  SetSuccess (Some ''Your post has been successfully added!''),
                                  SetError None]));
          r4 = relist js (user s) listResp r3
      in ((fst r4)\<lparr>error := None, newPost := \<lparr>np_title = [], np_text = []\<rparr>,
                    isLoading := False, showModal := False\<rparr>,
          snd r4 @ [SetError None, SetNewPost \<lparr>np_title = [], np_text = []\<rparr>,
                    SetIsLoading False, SetShowModal False]))"
  using assms
  by (cases createResp) (simp_all add: handlePostSubmit_def effect_defs Let_def split: option.split)

lemma handleDeletePost_run:
  "handleDeletePost js postId deleteResp listResp (s, l) =
     (let r3 = (if accepted deleteResp
                then (s\<lparr>isLoading := True, posts := filter (\<lambda>post. pid post \<noteq> postId) (posts s),
                        success := Some ''Your post has been successfully deleted!'',
                        error := None\<rparr>,
                      l @ [SetIsLoading True, Fetch (DELETE_posts postId),
                           SetPosts (filter (\<lambda>post. pid post \<noteq> postId) (posts s)),
                           SetSuccess (Some ''Your post has been successfully deleted!''),
                           SetError None])
                else (s\<lparr>isLoading := True\<rparr>,
                      l @ [SetIsLoading True, Fetch (DELETE_posts postId),
                           ConsoleError ''Error deleting post:'']));
          r4 = relist js (user s) listResp r3
      in ((fst r4)\<lparr>isLoading := False\<rparr>, snd r4 @ [SetIsLoading False]))"
  by (cases deleteResp) (simp_all add: handleDeletePost_def effect_defs Let_def)

text \<open>No handler takes the success message away.\<close>

lemma step_success:
  assumes "success (fst r) \<noteq> None"
  shows "success (fst (step js c r)) \<noteq> None"
proof -
  obtain s l where r: "r = (s, l)" by (cases r)
  have submit: "success (fst (handlePostSubmit js now createResp listResp (s, l))) \<noteq> None"
    for now createResp listResp
  proof (cases "np_title (newPost s) = [] \<or> np_text (newPost s) = []")
    case True
    then show ?thesis using assms r by (simp add: handlePostSubmit_invalid)
  next
    case False
    then show ?thesis using assms r
      by (auto simp: handlePostSubmit_run relist_run getPosts_run Let_def split: option.split)
  qed
  show ?thesis
  proof (cases c)
    case (GetPosts u listResp)
    then show ?thesis using assms r by (simp add: getPosts_run split: option.split)
  next
    case (InputChange name val)
    then show ?thesis using assms r by (simp add: handleInputChange_def setNewPost_def)
  next
    case ModalToggle
    then show ?thesis using assms r by (simp add: handleModalToggle_def setShowModal_def)
  next
    case (PostSubmit now createResp listResp)
    then show ?thesis using submit r by simp
  next
    case (DeletePost postId deleteResp listResp)
    then show ?thesis using assms r
      by (auto simp: handleDeletePost_run relist_run getPosts_run Let_def split: option.split)
  qed
qed

lemma exec_success:
  "success (fst r) \<noteq> None \<Longrightarrow> success (fst (exec js cs r)) \<noteq> None"
proof (induction cs arbitrary: r)
  case Nil
  then show ?case by simp
next
  case (Cons c cs)
  from Cons.prems have "success (fst (step js c r)) \<noteq> None"
    by (rule step_success)
  then have "success (fst (exec js cs (step js c r))) \<noteq> None"
    by (rule Cons.IH)
  then show ?case by simp
qed

section \<open>Listing shows the user's own posts\<close>

text \<open>
  Claim C1. Whatever the store returns, with posts of several users, and whoever the user
  \<open>u\<close> is, \<^verbatim>\<open>getPosts\<close> hands to \<^verbatim>\<open>setPosts\<close> only posts whose \<^verbatim>\<open>userId\<close> is the id of
  \<open>u\<close>: every \<^verbatim>\<open>setPosts\<close> call of a run of \<^verbatim>\<open>getPosts\<close> lists only such posts, and
  after a fetch that succeeded the displayed list is the user's part of the data, so no
  post of another user is in it.
\<close>

theorem getPosts_only_own_posts:
  "(\<forall>ps. SetPosts ps \<in> set (snd (getPosts js u listResp (s, []))) \<longrightarrow>
          (\<forall>p\<in>set ps. userId p = uid u))
   \<and> (\<forall>data. delivered listResp = Some data \<longrightarrow>
          posts (fst (getPosts js u listResp (s, []))) = userPosts js u data
          \<and> (\<forall>p\<in>set (posts (fst (getPosts js u listResp (s, [])))). userId p = uid u))"
  by (auto simp: getPosts_run userPosts_owner split: option.split)

text \<open>The store holds a post of \<open>user1\<close> and one of \<open>user2\<close>; \<open>user1\<close> sees the first only.\<close>

theorem getPosts_only_own_posts_witness:
  "delivered (Response True (Some [post1, post2])) = Some [post1, post2]
   \<and> SetPosts [post1]
       \<in> set (snd (getPosts sampleJs user1 (Response True (Some [post1, post2])) (initialState, [])))
   \<and> posts (fst (getPosts sampleJs user1 (Response True (Some [post1, post2])) (initialState, [])))
       = [post1]
   \<and> userId post1 = uid user1"
proof -
  have run: "getPosts sampleJs user1 (Response True (Some [post1, post2])) (initialState, [])
      = (initialState\<lparr>posts := [post1]\<rparr>, [Fetch GET_posts, SetPosts [post1]])"
    by (simp add: getPosts_run userPosts_def sort_eval sample_defs)
  have own: "userId post1 = uid user1"
    using getPosts_only_own_posts
      [of sampleJs user1 "Response True (Some [post1, post2])" initialState]
    unfolding run by simp
  show ?thesis
    using run own by simp
qed

section \<open>Ordering: newest first, stable\<close>

text \<open>
  Claim C2, as the code has it. When every post of the user in the data has a
  \<^verbatim>\<open>postedAt\<close> that is a date, the list that \<^verbatim>\<open>getPosts\<close> displays is the user's posts
  of the data, each as often as it is there, sorted by time value descending: no post
  stands before a newer one; when the time values (not only the \<^verbatim>\<open>postedAt\<close> strings)
  are pairwise distinct the list is strictly descending; and the posts of one time value,
  so also the posts of one \<^verbatim>\<open>postedAt\<close> string, keep the order they had in the data.
\<close>

theorem getPosts_orders_newest_first:
  assumes "\<forall>p\<in>set data. userId p = uid u \<longrightarrow> getTime js (postedAt p) \<noteq> None"
    and "delivered listResp = Some data"
  shows "posts (fst (getPosts js u listResp (s, []))) = userPosts js u data
       \<and> mset (userPosts js u data) = mset (filter (\<lambda>post. userId post = uid u) data)
       \<and> sorted_wrt (\<lambda>a b. timeOf (getTime js) a \<ge> timeOf (getTime js) b) (userPosts js u data)
       \<and> (distinct (map (timeOf (getTime js)) (filter (\<lambda>post. userId post = uid u) data)) \<longrightarrow>
            sorted_wrt (\<lambda>a b. timeOf (getTime js) a > timeOf (getTime js) b) (userPosts js u data))
       \<and> (\<forall>t. filter (\<lambda>p. timeOf (getTime js) p = t) (userPosts js u data)
              = filter (\<lambda>p. timeOf (getTime js) p = t) (filter (\<lambda>post. userId post = uid u) data))
       \<and> (\<forall>d. filter (\<lambda>p. postedAt p = d) (userPosts js u data)
              = filter (\<lambda>p. postedAt p = d) (filter (\<lambda>post. userId post = uid u) data))"
proof -
  have dated: "\<forall>p\<in>set (filter (\<lambda>post. userId post = uid u) data). getTime js (postedAt p) \<noteq> None"
    using assms(1) by simp
  have shown: "posts (fst (getPosts js u listResp (s, []))) = userPosts js u data"
    using assms(2) by (simp add: getPosts_run)
  from array_sort_descending_stable [OF dated, of "sortOrder js"] shown
  show ?thesis
    unfolding userPosts_def by blast
qed

text \<open>
  The store holds three posts of \<open>user1\<close> and one of \<open>user2\<close>. \<open>post1\<close> and \<open>post4\<close> are
  of the same day and \<open>post3\<close> is newer: \<open>post3\<close> comes first, \<open>post1\<close> stays before
  \<open>post4\<close>. Without \<open>post4\<close> the time values are distinct.
\<close>

theorem getPosts_orders_newest_first_witness:
  "getTime sampleJs (postedAt post1) \<noteq> None \<and> getTime sampleJs (postedAt post3) \<noteq> None
   \<and> getTime sampleJs (postedAt post4) \<noteq> None
   \<and> delivered (Response True (Some [post1, post2, post3, post4])) = Some [post1, post2, post3, post4]
   \<and> posts (fst (getPosts sampleJs user1 (Response True (Some [post1, post2, post3, post4]))
                  (initialState, []))) = [post3, post1, post4]
   \<and> map (timeOf (getTime sampleJs)) [post3, post1, post4]
       = [1704240000000, 1704067200000, 1704067200000]
   \<and> distinct (map (timeOf (getTime sampleJs)) [post1, post3])
   \<and> posts (fst (getPosts sampleJs user1 (Response True (Some [post1, post2, post3]))
                  (initialState, []))) = [post3, post1]
   \<and> sorted_wrt (\<lambda>a b. timeOf (getTime sampleJs) a > timeOf (getTime sampleJs) b) [post3, post1]"
  using getPosts_orders_newest_first
      [where js = sampleJs and u = user1 and s = initialState
         and data = "[post1, post2, post3, post4]"
         and listResp = "Response True (Some [post1, post2, post3, post4])"]
    getPosts_orders_newest_first
      [where js = sampleJs and u = user1 and s = initialState
         and data = "[post1, post2, post3]"
         and listResp = "Response True (Some [post1, post2, post3])"]
  by (simp add: getPosts_run userPosts_def sort_eval SortCompare_def compareFn_def timeOf_def
      sample_defs)

text \<open>
  Claim C2 as written speaks of every list of posts and of distinct \<^verbatim>\<open>postedAt\<close>.
  \<open>post1\<close> and \<open>post5\<close> have distinct \<^verbatim>\<open>postedAt\<close> and one time value: the list shown is
  not strictly descending by time. And \<open>post6\<close> has no date: every comparison with it
  gives \<^verbatim>\<open>NaN\<close>, the order is the engine's, and an engine that finds nothing to move
  (V8 compares \<open>post6\<close> with \<open>post1\<close> and \<open>post7\<close> with \<open>post6\<close>, and stops) shows the
  oldest post first and the newest last.
\<close>

theorem equal_instants_and_undated_posts:
  "postedAt post1 \<noteq> postedAt post5
   \<and> posts (fst (getPosts sampleJs user1 (Response True (Some [post1, post5])) (initialState, [])))
       = [post1, post5]
   \<and> getTime sampleJs (postedAt post1) = Some 1704067200000
   \<and> getTime sampleJs (postedAt post5) = Some 1704067200000
   \<and> \<not> timeOf (getTime sampleJs) post1 > timeOf (getTime sampleJs) post5
   \<and> getTime sampleJs (postedAt post6) = None
   \<and> posts (fst (getPosts sampleJs user1 (Response True (Some [post1, post6, post7]))
                  (initialState, []))) = [post1, post6, post7]
   \<and> getTime sampleJs (postedAt post7) = Some 1704412800000
   \<and> timeOf (getTime sampleJs) post1 < timeOf (getTime sampleJs) post7"
  by (simp add: getPosts_run userPosts_def sort_eval SortCompare_def compareFn_def timeOf_def
      sample_defs)

section \<open>Validation of the draft\<close>

text \<open>
  Claim C3, as the code has it. The check is \<^verbatim>\<open>!newPost.title || !newPost.text\<close>: a
  draft whose title or text is the empty string (nothing is trimmed) makes
  \<^verbatim>\<open>handlePostSubmit\<close> set \<open>error\<close> to the validation message and return; it sends
  no request, does not set \<open>isLoading\<close> and leaves \<open>posts\<close> as they were.
\<close>

theorem empty_draft_is_rejected:
  assumes "np_title (newPost s) = [] \<or> np_text (newPost s) = []"
  shows "let r = handlePostSubmit js now createResp listResp (s, [])
         in error (fst r) = Some ''Both title and content are required.''
          \<and> snd r = [SetError (Some ''Both title and content are required.'')]
          \<and> (\<forall>q. Fetch q \<notin> set (snd r))
          \<and> SetIsLoading True \<notin> set (snd r)
          \<and> isLoading (fst r) = isLoading s
          \<and> posts (fst r) = posts s"
  using assms by (simp add: handlePostSubmit_invalid)

text \<open>The draft \<^verbatim>\<open>{title: "", text: "hi"}\<close>.\<close>

theorem empty_draft_is_rejected_witness:
  "(np_title (newPost (sampleState\<lparr>newPost := \<lparr>np_title = [], np_text = ''hi''\<rparr>\<rparr>)) = []
      \<or> np_text (newPost (sampleState\<lparr>newPost := \<lparr>np_title = [], np_text = ''hi''\<rparr>\<rparr>)) = [])
   \<and> handlePostSubmit sampleJs ''2024-01-03T00:00:00.000Z'' (Response True (Some post3))
        (Response True (Some [post1, post2, post3]))
        (sampleState\<lparr>newPost := \<lparr>np_title = [], np_text = ''hi''\<rparr>\<rparr>, [])
      = (sampleState\<lparr>newPost := \<lparr>np_title = [], np_text = ''hi''\<rparr>,
                      error := Some ''Both title and content are required.''\<rparr>,
         [SetError (Some ''Both title and content are required.'')])"
  using empty_draft_is_rejected [of "sampleState\<lparr>newPost := \<lparr>np_title = [], np_text = ''hi''\<rparr>\<rparr>"
      sampleJs "''2024-01-03T00:00:00.000Z''" "Response True (Some post3)"
      "Response True (Some [post1, post2, post3])"]
  by (simp add: handlePostSubmit_def setError_def sampleState_def initialState_def)

text \<open>
  Claim C3 as written speaks of a draft that is empty after trimming. The title \<^verbatim>\<open>" "\<close>
  is empty after trimming, and the handler sets \<open>isLoading\<close> and sends the create
  request with it.
\<close>

theorem blank_draft_is_sent:
  "trim (np_title \<lparr>np_title = '' '', np_text = ''hi''\<rparr>) = []
   \<and> Fetch (POST_posts \<lparr>npd_userId = Some ''u1'', npd_title = '' '', npd_text = ''hi'',
                        npd_postedAt = ''2024-01-03T00:00:00.000Z''\<rparr>)
       \<in> set (snd (handlePostSubmit sampleJs ''2024-01-03T00:00:00.000Z'' Rejected Rejected
                     (sampleState\<lparr>newPost := \<lparr>np_title = '' '', np_text = ''hi''\<rparr>\<rparr>, [])))
   \<and> SetIsLoading True
       \<in> set (snd (handlePostSubmit sampleJs ''2024-01-03T00:00:00.000Z'' Rejected Rejected
                     (sampleState\<lparr>newPost := \<lparr>np_title = '' '', np_text = ''hi''\<rparr>\<rparr>, [])))"
  by (simp add: trim_def isWhiteSpace_def handlePostSubmit_run relist_run getPosts_run
      sampleState_def initialState_def user1_def)

section \<open>Creating a post\<close>

text \<open>
  Claim C4, as the code has it. When the draft passes the check and the create request
  succeeds with the post \<open>addedPost\<close>, then after \<^verbatim>\<open>handlePostSubmit\<close> has completed
  \<open>isLoading\<close> is false and \<open>success\<close> is set, whatever the re-list gives. The displayed
  list is the result of the re-list, or, when the re-list fails (or no user is set), the
  old list with \<open>addedPost\<close> in front. So the new post is in \<open>posts\<close> whenever the re-list
  fails or returns the post under the user's id.
\<close>

theorem created_post_is_shown:
  assumes "np_title (newPost s) \<noteq> []" and "np_text (newPost s) \<noteq> []"
    and "delivered createResp = Some addedPost"
  shows "let s' = fst (handlePostSubmit js now createResp listResp (s, []))
         in \<not> isLoading s'
          \<and> success s' = Some ''Your post has been successfully added!''
          \<and> posts s' = (case user s of
                          None \<Rightarrow> addedPost # posts s
                        | Some u \<Rightarrow> (case delivered listResp of
                                       None \<Rightarrow> addedPost # posts s
                                     | Some data \<Rightarrow> userPosts js u data))
          \<and> ((\<forall>u data. user s = Some u \<and> delivered listResp = Some data \<longrightarrow>
                  addedPost \<in> set data \<and> userId addedPost = uid u)
               \<longrightarrow> addedPost \<in> set (posts s'))"
  using assms
  by (auto simp: handlePostSubmit_run relist_run getPosts_run Let_def set_userPosts
      split: option.split)

text \<open>\<open>user1\<close> submits the draft; the store creates \<open>post3\<close> and then lists it.\<close>

theorem created_post_is_shown_witness:
  "np_title (newPost sampleState) \<noteq> [] \<and> np_text (newPost sampleState) \<noteq> []
   \<and> delivered (Response True (Some post3)) = Some post3
   \<and> user sampleState = Some user1
   \<and> delivered (Response True (Some [post1, post2, post3])) = Some [post1, post2, post3]
   \<and> post3 \<in> set [post1, post2, post3] \<and> userId post3 = uid user1
   \<and> post3 \<in> set (posts (fst (handlePostSubmit sampleJs ''2024-01-03T00:00:00.000Z''
         (Response True (Some post3)) (Response True (Some [post1, post2, post3]))
         (sampleState, []))))
   \<and> posts (fst (handlePostSubmit sampleJs ''2024-01-03T00:00:00.000Z''
         (Response True (Some post3)) (Response True (Some [post1, post2, post3]))
         (sampleState, []))) = [post3, post1]"
  using created_post_is_shown [of sampleState "Response True (Some post3)" post3 sampleJs
      "''2024-01-03T00:00:00.000Z''" "Response True (Some [post1, post2, post3])"]
  by (simp add: handlePostSubmit_run relist_run getPosts_run userPosts_def sort_eval
      SortCompare_def compareFn_def sample_defs)

text \<open>
  Claim C4 as written has the new post in \<open>posts\<close> after every create that succeeds.
  The store answers the create with \<open>post3\<close>, and the list request after it with the
  posts it had before: the re-list replaces the list that had \<open>post3\<close> in front, and
  \<open>post3\<close> is not shown.
\<close>

theorem created_post_can_be_missing:
  "delivered (Response True (Some post3)) = Some post3
   \<and> SetPosts [post3, post1]
       \<in> set (snd (handlePostSubmit sampleJs ''2024-01-03T00:00:00.000Z''
                     (Response True (Some post3)) (Response True (Some [post1, post2]))
                     (sampleState, [])))
   \<and> posts (fst (handlePostSubmit sampleJs ''2024-01-03T00:00:00.000Z''
         (Response True (Some post3)) (Response True (Some [post1, post2]))
         (sampleState, []))) = [post1]
   \<and> post3 \<notin> set (posts (fst (handlePostSubmit sampleJs ''2024-01-03T00:00:00.000Z''
         (Response True (Some post3)) (Response True (Some [post1, post2]))
         (sampleState, []))))"
  by (simp add: handlePostSubmit_run relist_run getPosts_run userPosts_def sort_eval
      sample_defs)

text \<open>
  Claim C5. For a user who is set and a draft that passes the check, whether the create
  request succeeds or fails: the handler sends the create request once and then the list
  request, and nothing else; the events after the \<^verbatim>\<open>try\<close> block are those of
  \<^verbatim>\<open>getPosts\<close> followed by the same four setter calls on both paths; at the end
  \<open>isLoading\<close> is false, the draft is empty and \<open>error\<close> is null.
\<close>

theorem create_always_relists_and_clears:
  assumes "user s = Some u"
    and "np_title (newPost s) \<noteq> []" and "np_text (newPost s) \<noteq> []"
  shows "let r = handlePostSubmit js now createResp listResp (s, []);
             d = \<lparr>npd_userId = Some (uid u), npd_title = np_title (newPost s),
                  npd_text = np_text (newPost s), npd_postedAt = now\<rparr>
         in snd r =
              [SetIsLoading True, Fetch (POST_posts d)]
              @ (case delivered createResp of
                   None \<Rightarrow> [ConsoleError ''Error adding post:'']
                 | Some p \<Rightarrow> [SetPosts (p # posts s),
                              SetSuccess (Some ''Your post has been successfully added!''),
                              SetError None])
              @ snd (getPosts js u listResp (s, []))
              @ [SetError None, SetNewPost \<lparr>np_title = [], np_text = []\<rparr>,
                 SetIsLoading False, SetShowModal False]
          \<and> [q. Fetch q \<leftarrow> snd r] = [POST_posts d, GET_posts]
          \<and> \<not> isLoading (fst r)
          \<and> newPost (fst r) = \<lparr>np_title = [], np_text = []\<rparr>
          \<and> error (fst r) = None
          \<and> posts (fst r) = (case delivered listResp of
                                Some data \<Rightarrow> userPosts js u data
                              | None \<Rightarrow> (case delivered createResp of
                                           None \<Rightarrow> posts s
                                         | Some p \<Rightarrow> p # posts s))"
  using assms
  by (auto simp: handlePostSubmit_run relist_run getPosts_run Let_def split: option.split)

text \<open>The create request is answered with a status that is not \<^verbatim>\<open>ok\<close>.\<close>

theorem create_always_relists_and_clears_witness:
  "user sampleState = Some user1
   \<and> np_title (newPost sampleState) \<noteq> [] \<and> np_text (newPost sampleState) \<noteq> []
   \<and> handlePostSubmit sampleJs ''2024-01-03T00:00:00.000Z'' (Response False None)
        (Response True (Some [post1, post2])) (sampleState, [])
      = (sampleState\<lparr>newPost := \<lparr>np_title = [], np_text = []\<rparr>\<rparr>,
         [SetIsLoading True,
          Fetch (POST_posts \<lparr>npd_userId = Some ''u1'', npd_title = ''Second'', npd_text = ''again'',
                              npd_postedAt = ''2024-01-03T00:00:00.000Z''\<rparr>),
          ConsoleError ''Error adding post:'',
          Fetch GET_posts, SetPosts [post1],
          SetError None, SetNewPost \<lparr>np_title = [], np_text = []\<rparr>,
          SetIsLoading False, SetShowModal False])"
  using create_always_relists_and_clears [of sampleState user1 sampleJs
      "''2024-01-03T00:00:00.000Z''" "Response False None" "Response True (Some [post1, post2])"]
  by (simp add: handlePostSubmit_run relist_run getPosts_run userPosts_def sort_eval
      sample_defs)

section \<open>Deleting a post\<close>

text \<open>
  Claim C6. When a user is set and the delete request fails (it is rejected or its
  response is not \<^verbatim>\<open>ok\<close>), \<^verbatim>\<open>handleDeletePost\<close> only logs the failure: between the
  request and the re-list there is one \<^verbatim>\<open>console.error\<close> call and no setter call. The
  re-list still runs, \<open>isLoading\<close> is false at the end, \<open>success\<close> is untouched, \<open>error\<close>
  is what the re-list leaves (unchanged when the list request succeeds), and \<open>posts\<close> is
  the user's part of what the store returns.
\<close>

theorem failed_delete_only_relists:
  assumes "user s = Some u" and "\<not> accepted deleteResp"
  shows "let r = handleDeletePost js postId deleteResp listResp (s, [])
         in snd r =
              [SetIsLoading True, Fetch (DELETE_posts postId), ConsoleError ''Error deleting post:'']
              @ snd (getPosts js u listResp (s, []))
              @ [SetIsLoading False]
          \<and> \<not> isLoading (fst r)
          \<and> success (fst r) = success s
          \<and> error (fst r) = (case delivered listResp of
                                Some data \<Rightarrow> error s
                              | None \<Rightarrow> Some ''Failed to load posts.'')
          \<and> posts (fst r) = (case delivered listResp of
                                Some data \<Rightarrow> userPosts js u data
                              | None \<Rightarrow> posts s)"
  using assms
  by (auto simp: handleDeletePost_run relist_run getPosts_run Let_def split: option.split)

text \<open>
  The store has no post \<^verbatim>\<open>"p9"\<close> and answers with a status that is not \<^verbatim>\<open>ok\<close>; the state
  at the end is the state at the start.
\<close>

theorem failed_delete_only_relists_witness:
  "user sampleState = Some user1 \<and> \<not> accepted (Response False None :: unit response)
   \<and> handleDeletePost sampleJs ''p9'' (Response False None)
        (Response True (Some [post1, post2])) (sampleState, [])
      = (sampleState,
         [SetIsLoading True, Fetch (DELETE_posts ''p9''), ConsoleError ''Error deleting post:'',
          Fetch GET_posts, SetPosts [post1], SetIsLoading False])"
  using failed_delete_only_relists [of sampleState user1 "Response False None" sampleJs
      "''p9''" "Response True (Some [post1, post2])"]
  by (simp add: handleDeletePost_run relist_run getPosts_run userPosts_def sort_eval
      sample_defs)

section \<open>A list request that fails\<close>

text \<open>
  Claim C7, as the code has it. When the fetch of \<^verbatim>\<open>getPosts\<close> fails, \<open>error\<close> becomes
  \<^verbatim>\<open>"Failed to load posts."\<close> and nothing else changes: \<open>posts\<close> is the list that was
  shown before, which is empty when nothing had been loaded.
\<close>

theorem failed_list_keeps_posts:
  assumes "delivered listResp = None"
  shows "fst (getPosts js u listResp (s, [])) = s\<lparr>error := Some ''Failed to load posts.''\<rparr>
       \<and> error (fst (getPosts js u listResp (s, []))) = Some ''Failed to load posts.''
       \<and> posts (fst (getPosts js u listResp (s, []))) = posts s
       \<and> (posts s = [] \<longrightarrow> posts (fst (getPosts js u listResp (s, []))) = [])"
  using assms by (simp add: getPosts_run)

text \<open>The first load of the page fails.\<close>

theorem failed_list_keeps_posts_witness:
  "delivered (Rejected :: Post list response) = None
   \<and> posts initialState = []
   \<and> fst (getPosts sampleJs user1 Rejected (initialState, []))
      = initialState\<lparr>error := Some ''Failed to load posts.''\<rparr>
   \<and> posts (fst (getPosts sampleJs user1 Rejected (initialState, []))) = []"
  using failed_list_keeps_posts [of Rejected sampleJs user1 initialState]
  by (simp add: initialState_def)

text \<open>
  Claim C7 as written asks for an empty list. A list request that succeeds, followed by
  one that is rejected, leaves the post of the first on display.
\<close>

theorem failed_list_does_not_empty_posts:
  "delivered (Rejected :: Post list response) = None
   \<and> posts (fst (exec sampleJs
        [GetPosts user1 (Response True (Some [post1, post2])), GetPosts user1 Rejected]
        (initialState, []))) = [post1]
   \<and> posts (fst (exec sampleJs
        [GetPosts user1 (Response True (Some [post1, post2])), GetPosts user1 Rejected]
        (initialState, []))) \<noteq> []"
  by (simp add: getPosts_run userPosts_def sort_eval sample_defs)

section \<open>The loading flag\<close>

text \<open>
  Claim C8, as the code has it. A create with a draft that passes the check, and every
  delete, call \<^verbatim>\<open>setIsLoading(true)\<close> first, before the request is sent, and
  \<^verbatim>\<open>setIsLoading(false)\<close> after the re-list has completed (in a create only
  \<^verbatim>\<open>setShowModal(false)\<close> comes after it), whatever the responses are; they set the flag
  nowhere in between, and \<open>isLoading\<close> is false when they complete. \<^verbatim>\<open>getPosts\<close> never
  calls \<^verbatim>\<open>setIsLoading\<close>: it leaves \<open>isLoading\<close> as it finds it.
\<close>

theorem loading_entered_by_create_and_delete_only:
  "(np_title (newPost s) \<noteq> [] \<and> np_text (newPost s) \<noteq> [] \<longrightarrow>
      snd (handlePostSubmit js now createResp listResp (s, []))
        = [SetIsLoading True,
           Fetch (POST_posts \<lparr>npd_userId = map_option uid (user s),
                               npd_title = np_title (newPost s),
                               npd_text = np_text (newPost s), npd_postedAt = now\<rparr>)]
          @ (case delivered createResp of
               None \<Rightarrow> [ConsoleError ''Error adding post:'']
             | Some p \<Rightarrow> [SetPosts (p # posts s),
                          SetSuccess (Some ''Your post has been successfully added!''),
                          SetError None])
          @ snd (relist js (user s) listResp (s, []))
          @ [SetError None, SetNewPost \<lparr>np_title = [], np_text = []\<rparr>,
             SetIsLoading False, SetShowModal False]
      \<and> [b. SetIsLoading b \<leftarrow> snd (handlePostSubmit js now createResp listResp (s, []))]
          = [True, False]
      \<and> \<not> isLoading (fst (handlePostSubmit js now createResp listResp (s, []))))
   \<and> snd (handleDeletePost js postId deleteResp listResp (s, []))
        = [SetIsLoading True, Fetch (DELETE_posts postId)]
          @ (if accepted deleteResp
             then [SetPosts (filter (\<lambda>post. pid post \<noteq> postId) (posts s)),
                   SetSuccess (Some ''Your post has been successfully deleted!''),
                   SetError None]
             else [ConsoleError ''Error deleting post:''])
          @ snd (relist js (user s) listResp (s, []))
          @ [SetIsLoading False]
   \<and> [b. SetIsLoading b \<leftarrow> snd (handleDeletePost js postId deleteResp listResp (s, []))]
        = [True, False]
   \<and> \<not> isLoading (fst (handleDeletePost js postId deleteResp listResp (s, [])))
   \<and> [b. SetIsLoading b \<leftarrow> snd (relist js (user s) listResp (s, []))] = []
   \<and> [b. SetIsLoading b \<leftarrow> snd (getPosts js u listResp (s, []))] = []
   \<and> isLoading (fst (getPosts js u listResp (s, []))) = isLoading s"
  by (auto simp: handlePostSubmit_run handleDeletePost_run relist_run getPosts_run Let_def
      split: option.split)

text \<open>A create that succeeds: the flag is raised first and lowered after the re-list.\<close>

theorem loading_entered_by_create_and_delete_only_witness:
  "np_title (newPost sampleState) \<noteq> [] \<and> np_text (newPost sampleState) \<noteq> []
   \<and> snd (handlePostSubmit sampleJs ''2024-01-03T00:00:00.000Z''
         (Response True (Some post3)) (Response True (Some [post1, post2, post3]))
         (sampleState, []))
       = [SetIsLoading True,
          Fetch (POST_posts \<lparr>npd_userId = Some ''u1'', npd_title = ''Second'', npd_text = ''again'',
                              npd_postedAt = ''2024-01-03T00:00:00.000Z''\<rparr>),
          SetPosts [post3, post1],
          SetSuccess (Some ''Your post has been successfully added!''), SetError None,
          Fetch GET_posts, SetPosts [post3, post1],
          SetError None, SetNewPost \<lparr>np_title = [], np_text = []\<rparr>,
          SetIsLoading False, SetShowModal False]
   \<and> \<not> isLoading (fst (handlePostSubmit sampleJs ''2024-01-03T00:00:00.000Z''
         (Response True (Some post3)) (Response True (Some [post1, post2, post3]))
         (sampleState, [])))"
  using loading_entered_by_create_and_delete_only
      [where s = sampleState and js = sampleJs and now = "''2024-01-03T00:00:00.000Z''"
         and createResp = "Response True (Some post3)"
         and listResp = "Response True (Some [post1, post2, post3])"]
  by (simp add: relist_run getPosts_run userPosts_def sort_eval SortCompare_def compareFn_def
      sample_defs)

text \<open>
  Claim C8 as written has the list operation enter the loading state. The first load of
  the page calls \<^verbatim>\<open>fetch\<close> and \<^verbatim>\<open>setPosts\<close> and never \<^verbatim>\<open>setIsLoading(true)\<close>.
\<close>

theorem list_never_enters_loading:
  "SetIsLoading True \<notin> set (snd (getPosts sampleJs user1 (Response True (Some [post1, post2]))
                                   (initialState, [])))
   \<and> snd (getPosts sampleJs user1 (Response True (Some [post1, post2])) (initialState, []))
       = [Fetch GET_posts, SetPosts [post1]]"
  by (simp add: getPosts_run userPosts_def sort_eval sample_defs)

section \<open>The error and success messages\<close>

text \<open>
  Claim C9, as the code has it. An error message does not stay after a create or a
  successful delete: a create with a draft that passes the check ends with \<open>error\<close>
  null, whatever the responses are; a delete whose request succeeds ends with \<open>error\<close>
  null when its re-list succeeds too (or no user is set). A successful \<^verbatim>\<open>getPosts\<close>
  changes \<open>posts\<close> and nothing else: \<open>error\<close>, \<open>success\<close> and \<open>isLoading\<close> are as before.
\<close>

theorem error_cleared_by_create_and_delete_only:
  "(np_title (newPost s) \<noteq> [] \<and> np_text (newPost s) \<noteq> [] \<longrightarrow>
      error (fst (handlePostSubmit js now createResp listResp (s, []))) = None)
   \<and> (accepted deleteResp \<and> (user s = None \<or> delivered listResp \<noteq> None) \<longrightarrow>
      error (fst (handleDeletePost js postId deleteResp listResp (s, []))) = None)
   \<and> (\<forall>data. delivered listResp = Some data \<longrightarrow>
        fst (getPosts js u listResp (s, [])) = s\<lparr>posts := userPosts js u data\<rparr>
        \<and> error (fst (getPosts js u listResp (s, []))) = error s
        \<and> success (fst (getPosts js u listResp (s, []))) = success s
        \<and> isLoading (fst (getPosts js u listResp (s, []))) = isLoading s)"
  by (auto simp: handlePostSubmit_run handleDeletePost_run relist_run getPosts_run Let_def
      split: option.split)

text \<open>
  The page shows the message of a failed load. A successful create clears it, a
  successful delete clears it, a successful list leaves it.
\<close>

theorem error_cleared_by_create_and_delete_only_witness:
  "np_title (newPost (sampleState\<lparr>error := Some ''Failed to load posts.''\<rparr>)) \<noteq> []
   \<and> np_text (newPost (sampleState\<lparr>error := Some ''Failed to load posts.''\<rparr>)) \<noteq> []
   \<and> error (fst (handlePostSubmit sampleJs ''2024-01-03T00:00:00.000Z''
         (Response True (Some post3)) (Response True (Some [post1, post2, post3]))
         (sampleState\<lparr>error := Some ''Failed to load posts.''\<rparr>, []))) = None
   \<and> accepted (Response True None :: unit response)
   \<and> delivered (Response True (Some [post2])) \<noteq> None
   \<and> error (fst (handleDeletePost sampleJs ''p1'' (Response True None)
         (Response True (Some [post2]))
         (sampleState\<lparr>error := Some ''Failed to load posts.''\<rparr>, []))) = None
   \<and> delivered (Response True (Some [post1, post2])) = Some [post1, post2]
   \<and> error (fst (getPosts sampleJs user1 (Response True (Some [post1, post2]))
         (sampleState\<lparr>error := Some ''Failed to load posts.''\<rparr>, [])))
       = Some ''Failed to load posts.''"
  using error_cleared_by_create_and_delete_only
      [where s = "sampleState\<lparr>error := Some ''Failed to load posts.''\<rparr>"
         and js = sampleJs and now = "''2024-01-03T00:00:00.000Z''"
         and createResp = "Response True (Some post3)"
         and listResp = "Response True (Some [post1, post2, post3])"]
    error_cleared_by_create_and_delete_only
      [where s = "sampleState\<lparr>error := Some ''Failed to load posts.''\<rparr>"
         and js = sampleJs and postId = "''p1''"
         and deleteResp = "Response True None"
         and listResp = "Response True (Some [post2])"]
    error_cleared_by_create_and_delete_only
      [where s = "sampleState\<lparr>error := Some ''Failed to load posts.''\<rparr>"
         and js = sampleJs and u = user1
         and listResp = "Response True (Some [post1, post2])"]
  by (simp add: sample_defs)

text \<open>
  Claim C9 as written has a successful list clear the error. The first load of the page
  is rejected and the second succeeds: the posts are shown and the message of the first
  is still there.
\<close>

theorem successful_list_keeps_error:
  "delivered (Response True (Some [post1, post2])) = Some [post1, post2]
   \<and> error (fst (exec sampleJs
        [GetPosts user1 Rejected, GetPosts user1 (Response True (Some [post1, post2]))]
        (initialState, []))) = Some ''Failed to load posts.''
   \<and> posts (fst (exec sampleJs
        [GetPosts user1 Rejected, GetPosts user1 (Response True (Some [post1, post2]))]
        (initialState, []))) = [post1]"
  by (simp add: getPosts_run userPosts_def sort_eval sample_defs)

text \<open>
  Claim C10, as the code has it. Once \<open>success\<close> is set, no sequence of operations makes
  it null again. A list, a create that fails or is stopped by the check, and a delete
  that fails leave its value as it is; a create or a delete that succeeds replaces it by
  its own message.
\<close>

theorem success_never_reset_to_null:
  assumes "success s \<noteq> None"
  shows "success (fst (exec js cs (s, l))) \<noteq> None
       \<and> success (fst (getPosts js u listResp (s, l))) = success s
       \<and> success (fst (handlePostSubmit js now createResp listResp (s, l)))
           = (if np_title (newPost s) \<noteq> [] \<and> np_text (newPost s) \<noteq> []
                 \<and> delivered createResp \<noteq> None
              then Some ''Your post has been successfully added!'' else success s)
       \<and> success (fst (handleDeletePost js postId deleteResp listResp (s, l)))
           = (if accepted deleteResp
              then Some ''Your post has been successfully deleted!'' else success s)"
proof -
  have "success (fst (exec js cs (s, l))) \<noteq> None"
    using assms by (simp add: exec_success)
  moreover have "success (fst (getPosts js u listResp (s, l))) = success s"
    by (simp add: getPosts_run split: option.split)
  moreover have "success (fst (handlePostSubmit js now createResp listResp (s, l)))
           = (if np_title (newPost s) \<noteq> [] \<and> np_text (newPost s) \<noteq> []
                 \<and> delivered createResp \<noteq> None
              then Some ''Your post has been successfully added!'' else success s)"
  proof (cases "np_title (newPost s) = [] \<or> np_text (newPost s) = []")
    case True
    then show ?thesis by (auto simp: handlePostSubmit_invalid)
  next
    case False
    then show ?thesis
      by (auto simp: handlePostSubmit_run relist_run getPosts_run Let_def split: option.split)
  qed
  moreover have "success (fst (handleDeletePost js postId deleteResp listResp (s, l)))
           = (if accepted deleteResp
              then Some ''Your post has been successfully deleted!'' else success s)"
    by (auto simp: handleDeletePost_run relist_run getPosts_run Let_def split: option.split)
  ultimately show ?thesis by blast
qed

text \<open>
  After a delete has set the message: a list that fails, a create that fails, a delete
  that fails, and a create stopped by the check, in this order, leave the message.
\<close>

theorem success_never_reset_to_null_witness:
  "success (sampleState\<lparr>success := Some ''Your post has been successfully deleted!''\<rparr>) \<noteq> None
   \<and> success (fst (exec sampleJs
        [GetPosts user1 Rejected,
         PostSubmit ''2024-01-03T00:00:00.000Z'' Rejected Rejected,
         DeletePost ''p1'' (Response False None) Rejected,
         InputChange ''title'' [],
         PostSubmit ''2024-01-03T00:00:00.000Z'' (Response True (Some post3)) Rejected]
        (sampleState\<lparr>success := Some ''Your post has been successfully deleted!''\<rparr>, [])))
      = Some ''Your post has been successfully deleted!''"
  using success_never_reset_to_null
      [where s = "sampleState\<lparr>success := Some ''Your post has been successfully deleted!''\<rparr>"
         and js = sampleJs and l = "[]"
         and cs = "[GetPosts user1 Rejected,
                    PostSubmit ''2024-01-03T00:00:00.000Z'' Rejected Rejected,
                    DeletePost ''p1'' (Response False None) Rejected,
                    InputChange ''title'' [],
                    PostSubmit ''2024-01-03T00:00:00.000Z'' (Response True (Some post3)) Rejected]"]
  by (simp add: getPosts_def getPosts_catch_def relist_def handlePostSubmit_def
      handleDeletePost_def handleInputChange_def effect_defs sample_defs)

text \<open>
  Claim C10 as written has the message persist unchanged whatever the outcome. A delete
  that succeeds sets the message of the delete; the create that succeeds after it shows
  the message of the create instead.
\<close>

theorem success_message_is_overwritten:
  "success (fst (exec sampleJs
        [DeletePost ''p1'' (Response True None) (Response True (Some [post2]))]
        (sampleState, []))) = Some ''Your post has been successfully deleted!''
   \<and> success (fst (exec sampleJs
        [DeletePost ''p1'' (Response True None) (Response True (Some [post2])),
         PostSubmit ''2024-01-03T00:00:00.000Z'' (Response True (Some post3))
           (Response True (Some [post2, post3]))]
        (sampleState, []))) = Some ''Your post has been successfully added!''
   \<and> success (fst (exec sampleJs
        [DeletePost ''p1'' (Response True None) (Response True (Some [post2])),
         PostSubmit ''2024-01-03T00:00:00.000Z'' (Response True (Some post3))
           (Response True (Some [post2, post3]))]
        (sampleState, [])))
      \<noteq> success (fst (exec sampleJs
        [DeletePost ''p1'' (Response True None) (Response True (Some [post2]))]
        (sampleState, [])))"
  by (simp add: getPosts_def getPosts_catch_def relist_def handlePostSubmit_def
      handleDeletePost_def effect_defs sample_defs)

end
